theory Spec2Isabelle
  imports Complex_Main "HOL-Library.Log_Nat"
begin

section \<open>Python values, exceptions and dictionaries\<close>

text \<open>
  A floating-point number is a binary64 value: a finite one is the rational number it
  denotes, beside the two infinities and NaN. The two zeros are one value, since nothing
  below reads the sign of a zero.
\<close>

datatype pyfloat = Finite rat | PosInf | NegInf | NaN

text \<open>
  The values that cross the handlers of \<^verbatim>\<open>app.py\<close> are JSON scalars: request fields,
  the extractor's metadata fields and the values of the option dictionary. \<open>PyBool\<close> is
  kept apart from \<open>PyInt\<close> although Python's \<^verbatim>\<open>bool\<close> is a subclass of \<^verbatim>\<open>int\<close>: the
  subclass relation is written out in \<open>isinstance_int_float\<close> and \<open>int_value\<close> below.
\<close>

datatype pyval = PyNone | PyBool bool | PyInt int | PyFloat pyfloat | PyStr string

text \<open>Truth value of an object, as tested by \<^verbatim>\<open>not url\<close>.\<close>

fun truthy :: "pyval \<Rightarrow> bool" where
  "truthy PyNone = False"
| "truthy (PyBool b) = b"
| "truthy (PyInt n) = (n \<noteq> 0)"
| "truthy (PyFloat x) = (x \<noteq> Finite 0)"
| "truthy (PyStr s) = (s \<noteq> [])"

text \<open>The name of the type of a value, as error messages give it.\<close>

fun py_type_name :: "pyval \<Rightarrow> string" where
  "py_type_name PyNone = ''NoneType''"
| "py_type_name (PyBool b) = ''bool''"
| "py_type_name (PyInt n) = ''int''"
| "py_type_name (PyFloat x) = ''float''"
| "py_type_name (PyStr s) = ''str''"

text \<open>
  A raised exception is a value; \<open>exc_str\<close> is what \<^verbatim>\<open>str(error)\<close> gives.
  \<open>AttributeError t a\<close> is the access to a missing attribute \<open>a\<close> of an object of type
  \<open>t\<close>. \<open>Raised msg\<close> stands for any exception of class \<^verbatim>\<open>Exception\<close> coming out of a
  collaborator (the framework, the extractor, the file sender), with \<open>msg\<close> its
  \<^verbatim>\<open>str\<close>.
\<close>

datatype py_exception =
    IndexError
  | KeyError string
  | AttributeError string string
  | ValueError string
  | OverflowError string
  | Raised string

fun exc_str :: "py_exception \<Rightarrow> string" where
  "exc_str IndexError = ''list index out of range''"
| "exc_str (KeyError k) = [CHR 0x27] @ k @ [CHR 0x27]"
| "exc_str (AttributeError t a) =
     [CHR 0x27] @ t @ [CHR 0x27] @ '' object has no attribute '' @ [CHR 0x27] @ a @ [CHR 0x27]"
| "exc_str (ValueError msg) = msg"
| "exc_str (OverflowError msg) = msg"
| "exc_str (Raised msg) = msg"

text \<open>\<^verbatim>\<open>d.get(key, default)\<close> on a dictionary.\<close>

definition dict_get :: "('k \<rightharpoonup> 'v) \<Rightarrow> 'k \<Rightarrow> 'v \<Rightarrow> 'v" where
  "dict_get d k dflt = (case d k of None \<Rightarrow> dflt | Some v \<Rightarrow> v)"

section \<open>String formatting\<close>

text \<open>Decimal rendering of an integer, as \<^verbatim>\<open>str\<close> and the format code \<^verbatim>\<open>d\<close> produce it.\<close>

definition digit_char :: "nat \<Rightarrow> char" where
  "digit_char d = ''0123456789'' ! d"

fun show_nat :: "nat \<Rightarrow> string" where
  "show_nat n =
     (if n < 10 then [digit_char n] else show_nat (n div 10) @ [digit_char (n mod 10)])"

declare show_nat.simps [simp del]

text \<open>\<^verbatim>\<open>f"{n}"\<close> for an integer \<open>n\<close>.\<close>

definition py_format_d :: "int \<Rightarrow> string" where
  "py_format_d n = (if n < 0 then ''-'' @ show_nat (nat (- n)) else show_nat (nat n))"

text \<open>
  \<^verbatim>\<open>f"{n:02d}"\<close>: sign-aware zero padding to a minimum width of two characters, the sign
  counting towards the width.
\<close>

definition py_format_02d :: "int \<Rightarrow> string" where
  "py_format_02d n =
     (let digits = show_nat (nat \<bar>n\<bar>) in
      if n < 0 then ''-'' @ replicate (2 - 1 - length digits) (CHR ''0'') @ digits
      else replicate (2 - length digits) (CHR ''0'') @ digits)"

text \<open>
  \<^verbatim>\<open>str(x)\<close> for the values of the model other than floats. The decimal \<^verbatim>\<open>repr\<close> of a
  float is not modelled: \<open>py_str\<close> has no equation for a float and is applied to none.
\<close>

fun py_str :: "pyval \<Rightarrow> string" where
  "py_str PyNone = ''None''"
| "py_str (PyBool b) = (if b then ''True'' else ''False'')"
| "py_str (PyInt n) = py_format_d n"
| "py_str (PyStr s) = s"

text \<open>
  \<^verbatim>\<open>s.replace(old, new)\<close>: every non-overlapping occurrence of \<open>old\<close>, found from the
  left, is replaced; an empty \<open>old\<close> matches before every character and at the end.
\<close>

function replace_scan :: "string \<Rightarrow> string \<Rightarrow> string \<Rightarrow> string" where
  "replace_scan old new [] = []"
| "replace_scan old new (c # cs) =
     (if old \<noteq> [] \<and> take (length old) (c # cs) = old
      then new @ replace_scan old new (drop (length old) (c # cs))
      else c # replace_scan old new cs)"
  by pat_completeness auto
termination
  by (relation "measure (\<lambda>(old, new, s). length s)") auto

definition py_replace :: "string \<Rightarrow> string \<Rightarrow> string \<Rightarrow> string" where
  "py_replace s old new =
     (if old = [] then new @ concat (map (\<lambda>c. c # new) s) else replace_scan old new s)"

section \<open>Floating-point arithmetic\<close>

text \<open>
  Rounding to binary64, to the nearest value and to the even one of two nearest: 53
  significant bits, exponents from \<open>-1022\<close> (below which the spacing stays that of the
  subnormal numbers) to \<open>1023\<close> (above which the result is an infinity).
  \<open>binary_exponent q\<close> is the \<open>e\<close> with \<open>2 ^ e \<le> q < 2 ^ (e + 1)\<close>, for a positive \<open>q\<close>.
\<close>

definition pow2 :: "int \<Rightarrow> rat" where
  "pow2 e = (if 0 \<le> e then 2 ^ nat e else 1 / 2 ^ nat (- e))"

definition binary_exponent :: "rat \<Rightarrow> int" where
  "binary_exponent q = (if 1 \<le> q then bitlen \<lfloor>q\<rfloor> - 1 else - bitlen (\<lceil>1 / q\<rceil> - 1))"

definition round_half_even :: "rat \<Rightarrow> int" where
  "round_half_even x =
     (let f = \<lfloor>x\<rfloor>; d = x - of_int f in
      if d < 1 / 2 then f else if 1 / 2 < d then f + 1 else if even f then f else f + 1)"

definition round_double :: "rat \<Rightarrow> pyfloat" where
  "round_double q =
     (if q = 0 then Finite 0
      else
        let e = max (binary_exponent \<bar>q\<bar>) (- 1022);
            ulp = pow2 (e - 52);
            r = sgn q * of_int (round_half_even (\<bar>q\<bar> / ulp)) * ulp
        in if pow2 1024 \<le> \<bar>r\<bar> then (if 0 < q then PosInf else NegInf) else Finite r)"

text \<open>
  C's \<^verbatim>\<open>fmod\<close> on finite numbers: the remainder of the division truncated towards zero,
  which is exact.
\<close>

definition trunc_int :: "rat \<Rightarrow> int" where
  "trunc_int q = (if 0 \<le> q then \<lfloor>q\<rfloor> else \<lceil>q\<rceil>)"

definition fmod :: "rat \<Rightarrow> rat \<Rightarrow> rat" where
  "fmod x y = x - y * of_int (trunc_int (x / y))"

text \<open>
  An operation that leaves an infinity or a NaN as it is, and rounds its result on a
  finite number: so do division by 60 and adding or subtracting 1.
\<close>

fun float_map :: "(rat \<Rightarrow> rat) \<Rightarrow> pyfloat \<Rightarrow> pyfloat" where
  "float_map f (Finite q) = round_double (f q)"
| "float_map f x = x"

text \<open>\<^verbatim>\<open>x > c\<close> for a finite \<open>c\<close>; a comparison with NaN is false.\<close>

fun float_gt :: "pyfloat \<Rightarrow> rat \<Rightarrow> bool" where
  "float_gt (Finite q) c = (c < q)"
| "float_gt PosInf c = True"
| "float_gt x c = False"

text \<open>
  \<^verbatim>\<open>x // 60\<close> and \<^verbatim>\<open>x % 60\<close> for a float \<open>x\<close>, as the interpreter computes them (the
  integer 60 becomes the float 60.0): the remainder is \<^verbatim>\<open>fmod(x, 60.0)\<close>, moved into
  the range of the divisor's sign; the quotient is \<^verbatim>\<open>(x - mod) / 60.0\<close>, less one when the
  remainder was moved, then snapped to the nearest integral value. \<^verbatim>\<open>fmod\<close> of an
  infinity or a NaN is NaN, and so is everything computed from it.
\<close>

definition float_floordiv_60 :: "pyfloat \<Rightarrow> pyfloat" where
  "float_floordiv_60 x =
     (case x of
        Finite vx \<Rightarrow>
          let remainder = fmod vx 60;
              quotient0 = float_map (\<lambda>d. d / 60) (round_double (vx - remainder));
              quotient = (if remainder \<noteq> 0 \<and> remainder < 0
                          then float_map (\<lambda>d. d - 1) quotient0 else quotient0)
          in (case quotient of
                Finite d \<Rightarrow>
                  if d \<noteq> 0
                  then (let floordiv = of_int \<lfloor>d\<rfloor> in
                        if float_gt (round_double (d - floordiv)) (1 / 2)
                        then round_double (floordiv + 1) else Finite floordiv)
                  else Finite 0
              | other \<Rightarrow> other)
      | _ \<Rightarrow> NaN)"

definition float_mod_60 :: "pyfloat \<Rightarrow> pyfloat" where
  "float_mod_60 x =
     (case x of
        Finite vx \<Rightarrow>
          let remainder = fmod vx 60 in
          if remainder \<noteq> 0
          then (if remainder < 0 then round_double (remainder + 60) else Finite remainder)
          else Finite 0
      | _ \<Rightarrow> NaN)"

text \<open>\<^verbatim>\<open>int(x)\<close> for a float: truncation, and an exception on a NaN or an infinity.\<close>

fun py_int_of_float :: "pyfloat \<Rightarrow> py_exception + int" where
  "py_int_of_float (Finite q) = Inr (trunc_int q)"
| "py_int_of_float NaN = Inl (ValueError ''cannot convert float NaN to integer'')"
| "py_int_of_float x = Inl (OverflowError ''cannot convert float infinity to integer'')"

section \<open>Module constants\<close>

definition DOWNLOAD_DIR :: string where "DOWNLOAD_DIR = ''downloads''"
definition DEFAULT_QUALITY :: string where "DEFAULT_QUALITY = ''1080p''"
definition HTTP_OK :: nat where "HTTP_OK = 200"
definition HTTP_BAD_REQUEST :: nat where "HTTP_BAD_REQUEST = 400"
definition HTTP_INTERNAL_SERVER_ERROR :: nat where "HTTP_INTERNAL_SERVER_ERROR = 500"
definition ERR_URL_REQUIRED :: string where "ERR_URL_REQUIRED = ''URL is required''"
definition ERR_FETCH_INFO :: string where
  "ERR_FETCH_INFO = ''Could not fetch video info. Please check the URL.''"
definition ERR_FILE_NOT_FOUND :: string where
  "ERR_FILE_NOT_FOUND = ''File not found after download''"

section \<open>The helpers of app.py\<close>

subsection \<open>format_duration\<close>

text \<open>
  \<^verbatim>\<open>isinstance(x, (int, float))\<close>: true of integers, of booleans (a \<^verbatim>\<open>bool\<close> is an
  \<^verbatim>\<open>int\<close>) and of floats; \<open>int_value\<close> is the integer that an integer or a boolean
  counts as in arithmetic.
\<close>

fun isinstance_int_float :: "pyval \<Rightarrow> bool" where
  "isinstance_int_float (PyInt n) = True"
| "isinstance_int_float (PyBool b) = True"
| "isinstance_int_float (PyFloat x) = True"
| "isinstance_int_float v = False"

fun int_value :: "pyval \<Rightarrow> int" where
  "int_value (PyInt n) = n"
| "int_value (PyBool b) = (if b then 1 else 0)"
| "int_value v = 0"

text \<open>
  Python's \<^verbatim>\<open>//\<close> and \<^verbatim>\<open>%\<close> on integers round towards minus infinity, as \<open>div\<close> and
  \<open>mod\<close> on \<open>int\<close> do, and \<^verbatim>\<open>int\<close> of an integer is that integer. On a float they are
  the float operations above, and \<^verbatim>\<open>int\<close> may raise: the minutes are computed first.
  \<open>Inl\<close> is a raised exception.
\<close>

definition format_duration :: "pyval \<Rightarrow> py_exception + string" where
  "format_duration duration_seconds =
     (if \<not> isinstance_int_float duration_seconds then Inr (py_str duration_seconds)
      else
        (case duration_seconds of
           PyFloat x \<Rightarrow>
             (case py_int_of_float (float_floordiv_60 x) of
                Inl e \<Rightarrow> Inl e
              | Inr minutes \<Rightarrow>
                  (case py_int_of_float (float_mod_60 x) of
                     Inl e \<Rightarrow> Inl e
                   | Inr seconds \<Rightarrow> Inr (py_format_d minutes @ '':'' @ py_format_02d seconds)))
         | _ \<Rightarrow>
             let minutes = int_value duration_seconds div 60;
                 seconds = int_value duration_seconds mod 60
             in Inr (py_format_d minutes @ '':'' @ py_format_02d seconds)))"

subsection \<open>get_ydl_opts\<close>

text \<open>
  The options are a dictionary from option names to values. The parameter
  \<^verbatim>\<open>output_template\<close> defaults to \<^verbatim>\<open>None\<close>, and \<^verbatim>\<open>None\<close> is then what is stored
  under \<^verbatim>\<open>'outtmpl'\<close>.
\<close>

type_synonym ydl_opts = "string \<rightharpoonup> pyval"

definition template_value :: "string option \<Rightarrow> pyval" where
  "template_value output_template =
     (case output_template of None \<Rightarrow> PyNone | Some t \<Rightarrow> PyStr t)"

text \<open>
  The result is a sum so that a raised exception would be a value \<open>Inl e\<close>. The body
  has no \<^verbatim>\<open>raise\<close> and no \<^verbatim>\<open>assert\<close>, and building and updating a dictionary cannot
  fail, so every path ends in \<^verbatim>\<open>return opts\<close>.
\<close>

definition get_ydl_opts :: "bool \<Rightarrow> string option \<Rightarrow> py_exception + ydl_opts" where
  "get_ydl_opts download output_template =
     (let opts = [''quiet'' \<mapsto> PyBool True, ''no_warnings'' \<mapsto> PyBool True] in
      if download
      then Inr (opts ++
             [''quiet'' \<mapsto> PyBool False,
              ''format'' \<mapsto> PyStr ''bestvideo[height<=1080]+bestaudio/best[height<=1080]'',
              ''outtmpl'' \<mapsto> template_value output_template,
              ''merge_output_format'' \<mapsto> PyStr ''mp4''])
      else Inr opts)"

text \<open>
  The same function with the dictionary as an object in a store, to say what a second
  call can see of the first: a heap is the list of the dictionaries allocated so far, and
  a reference is an index into it. The literal \<^verbatim>\<open>{...}\<close> allocates,
  \<^verbatim>\<open>opts.update\<close> writes through the reference, and the reference is returned.
\<close>

type_synonym heap = "ydl_opts list"

definition dict_new :: "ydl_opts \<Rightarrow> heap \<Rightarrow> nat \<times> heap" where
  "dict_new d h = (length h, h @ [d])"

definition dict_update :: "nat \<Rightarrow> ydl_opts \<Rightarrow> heap \<Rightarrow> heap" where
  "dict_update r d h = h[r := (h ! r) ++ d]"

definition dict_setitem :: "nat \<Rightarrow> string \<Rightarrow> pyval \<Rightarrow> heap \<Rightarrow> heap" where
  "dict_setitem r k v h = h[r := (h ! r)(k \<mapsto> v)]"

definition get_ydl_opts_heap :: "bool \<Rightarrow> string option \<Rightarrow> heap \<Rightarrow> nat \<times> heap" where
  "get_ydl_opts_heap download output_template h =
     (let (opts, h1) = dict_new [''quiet'' \<mapsto> PyBool True, ''no_warnings'' \<mapsto> PyBool True] h in
      if download
      then (opts, dict_update opts
             [''quiet'' \<mapsto> PyBool False,
              ''format'' \<mapsto> PyStr ''bestvideo[height<=1080]+bestaudio/best[height<=1080]'',
              ''outtmpl'' \<mapsto> template_value output_template,
              ''merge_output_format'' \<mapsto> PyStr ''mp4''] h1)
      else (opts, h1))"

subsection \<open>get_quality_format_string\<close>

definition get_quality_format_string :: "string \<Rightarrow> string" where
  "get_quality_format_string quality =
     (let height = py_replace quality ''p'' [] in
      if height \<in> set [''1080'', ''720'', ''480'', ''360'']
      then ''bestvideo[height<='' @ height @ '']+bestaudio/best[height<='' @ height @ '']''
      else ''best'')"

section \<open>Paths\<close>

text \<open>
  \<^verbatim>\<open>os.path.join\<close> and \<^verbatim>\<open>os.path.splitext\<close> of a POSIX system, on two components:
  an absolute second component replaces the first; the extension starts at the last dot
  of the last path component, unless only dots precede it there.
\<close>

definition path_join :: "string \<Rightarrow> string \<Rightarrow> string" where
  "path_join a b =
     (if b \<noteq> [] \<and> hd b = CHR ''/'' then b
      else if a = [] \<or> last a = CHR ''/'' then a @ b
      else a @ ''/'' @ b)"

text \<open>\<^verbatim>\<open>s.rfind(c)\<close> for a character: the last index of \<open>c\<close>, or \<open>-1\<close>.\<close>

fun rfind_from :: "char \<Rightarrow> string \<Rightarrow> int \<Rightarrow> int \<Rightarrow> int" where
  "rfind_from c [] i found = found"
| "rfind_from c (x # xs) i found = rfind_from c xs (i + 1) (if x = c then i else found)"

definition rfind :: "string \<Rightarrow> char \<Rightarrow> int" where
  "rfind s c = rfind_from c s 0 (- 1)"

definition splitext :: "string \<Rightarrow> string \<times> string" where
  "splitext p =
     (let sepIndex = rfind p (CHR ''/'');
          dotIndex = rfind p (CHR ''.'')
      in if dotIndex > sepIndex \<and>
            list_ex (\<lambda>c. c \<noteq> CHR ''.'')
              (take (nat (dotIndex - (sepIndex + 1))) (drop (nat (sepIndex + 1)) p))
         then (take (nat dotIndex) p, drop (nat dotIndex) p)
         else (p, []))"

section \<open>The request handlers\<close>

text \<open>
  A response is the pair the handlers return: a body and a status. A body is a JSON
  object (\<^verbatim>\<open>jsonify\<close> of a dictionary) or a file sent as an attachment. A handler that
  returns a body alone answers with the status 200.
\<close>

datatype body = Json "string \<rightharpoonup> pyval" | Attachment string

type_synonym response = "body \<times> nat"

text \<open>
  The extractor is outside the program. Its result is a dictionary; \<open>meta\<close> holds the
  scalar entries read with \<^verbatim>\<open>info.get\<close>, and \<open>requested_downloads\<close> is the entry of
  that name when present: a list of dictionaries. An object \<^verbatim>\<open>YoutubeDL(opts)\<close> offers
  \<^verbatim>\<open>extract_info(url, download)\<close> and \<^verbatim>\<open>prepare_filename(info)\<close>, either of which may
  raise; the constructor and the \<^verbatim>\<open>with\<close> block are taken to succeed.
\<close>

type_synonym download_entry = "string \<rightharpoonup> string"

record info_dict =
  meta :: "string \<rightharpoonup> pyval"
  requested_downloads :: "download_entry list option"

record ydl =
  extract_info :: "pyval \<Rightarrow> bool \<Rightarrow> py_exception + info_dict"
  prepare_filename :: "info_dict \<Rightarrow> py_exception + string"

subsection \<open>get_video_info\<close>

text \<open>
  The \<^verbatim>\<open>try\<close> block of the handler; \<open>Inl\<close> is an exception that leaves it, one raised
  by \<open>format_duration\<close> included.
\<close>

definition get_video_info_try :: "pyval \<Rightarrow> (ydl_opts \<Rightarrow> ydl) \<Rightarrow> py_exception + response" where
  "get_video_info_try url YoutubeDL =
     (case get_ydl_opts False None of
        Inl e \<Rightarrow> Inl e
      | Inr opts \<Rightarrow>
          let y = YoutubeDL opts in
          (case extract_info y url False of
             Inl e \<Rightarrow> Inl e
           | Inr info \<Rightarrow>
               (case format_duration (dict_get (meta info) ''duration'' PyNone) of
                  Inl e \<Rightarrow> Inl e
                | Inr duration \<Rightarrow>
                    let video_data =
                      [''title'' \<mapsto> dict_get (meta info) ''title'' (PyStr ''Unknown Title''),
                       ''thumbnail'' \<mapsto> dict_get (meta info) ''thumbnail'' (PyStr []),
                       ''duration'' \<mapsto> PyStr duration,
                       ''author'' \<mapsto> dict_get (meta info) ''uploader'' (PyStr ''Unknown Author''),
                       ''webpage_url'' \<mapsto> dict_get (meta info) ''webpage_url'' url]
                    in Inr (Json video_data, HTTP_OK))))"

text \<open>
  What \<^verbatim>\<open>request.get_json()\<close> gives: it raises (a body that is not JSON, or not
  declared as JSON) or returns the parsed body, which is a JSON object, a JSON array
  (whose elements nothing reads) or a scalar, \<^verbatim>\<open>null\<close> included.
\<close>

datatype json = JObject "string \<rightharpoonup> pyval" | JArray | JScalar pyval

text \<open>
  The handler. Lines 109 and 110 stand before the \<^verbatim>\<open>try\<close> block: an exception of
  \<^verbatim>\<open>get_json\<close>, or of \<^verbatim>\<open>data.get\<close> on a body that is not an object and so has no
  such method, leaves the handler (\<open>Inl\<close>), and the answer is then the framework's, not
  the handler's. On an object, \<^verbatim>\<open>data.get('url')\<close> is \<^verbatim>\<open>None\<close> when the field is absent.
\<close>

definition get_video_info ::
  "py_exception + json \<Rightarrow> (ydl_opts \<Rightarrow> ydl) \<Rightarrow> py_exception + response" where
  "get_video_info get_json YoutubeDL =
     (case get_json of
        Inl e \<Rightarrow> Inl e
      | Inr data \<Rightarrow>
          (case data of
             JObject obj \<Rightarrow>
               let url = dict_get obj ''url'' PyNone in
               if \<not> truthy url
               then Inr (Json [''error'' \<mapsto> PyStr ERR_URL_REQUIRED], HTTP_BAD_REQUEST)
               else
                 (case get_video_info_try url YoutubeDL of
                    Inr r \<Rightarrow> Inr r
                  | Inl error \<Rightarrow>
                      Inr (Json [''error'' \<mapsto> PyStr ERR_FETCH_INFO], HTTP_BAD_REQUEST))
           | JArray \<Rightarrow> Inl (AttributeError ''list'' ''get'')
           | JScalar v \<Rightarrow> Inl (AttributeError (py_type_name v) ''get'')))"

subsection \<open>download_video\<close>

text \<open>Lines 151 to 156: the output template and the options handed to the extractor.\<close>

definition download_opts :: "int \<Rightarrow> string \<Rightarrow> py_exception + ydl_opts" where
  "download_opts timestamp quality =
     (let output_template =
            path_join DOWNLOAD_DIR (''%(title)s_'' @ py_format_d timestamp @ ''.%(ext)s'')
      in case get_ydl_opts True (Some output_template) of
           Inl e \<Rightarrow> Inl e
         | Inr opts \<Rightarrow> Inr (opts(''format'' \<mapsto> PyStr (get_quality_format_string quality))))"

text \<open>
  Lines 163 to 170: the file the download produced. Indexing an empty list raises
  \<^verbatim>\<open>IndexError\<close>, a dictionary without the key raises \<^verbatim>\<open>KeyError\<close>.
\<close>

definition resolve_filename :: "ydl \<Rightarrow> info_dict \<Rightarrow> py_exception + string" where
  "resolve_filename y info =
     (case requested_downloads info of
        Some downloads \<Rightarrow>
          (case downloads of
             [] \<Rightarrow> Inl IndexError
           | first # _ \<Rightarrow>
               (case first ''filepath'' of
                  None \<Rightarrow> Inl (KeyError ''filepath'')
                | Some filepath \<Rightarrow> Inr filepath))
      | None \<Rightarrow>
          (case prepare_filename y info of
             Inl e \<Rightarrow> Inl e
           | Inr filename \<Rightarrow>
               let (base, ext) = splitext filename in
               if ext \<noteq> ''.mp4'' then Inr (base @ ''.mp4'') else Inr filename))"

text \<open>
  The \<^verbatim>\<open>try\<close> block of the handler. \<open>now\<close> is \<^verbatim>\<open>int(time.time())\<close>, \<open>path_exists\<close> is
  \<^verbatim>\<open>os.path.exists\<close> on the file system after the download, and \<open>send_file\<close> is
  Flask's, which may raise.
\<close>

definition download_video_try ::
  "string \<Rightarrow> string \<Rightarrow> int \<Rightarrow> (ydl_opts \<Rightarrow> ydl) \<Rightarrow> (string \<Rightarrow> bool) \<Rightarrow>
   (string \<Rightarrow> py_exception + body) \<Rightarrow> py_exception + response" where
  "download_video_try url quality now YoutubeDL path_exists send_file =
     (case download_opts now quality of
        Inl e \<Rightarrow> Inl e
      | Inr opts \<Rightarrow>
          let y = YoutubeDL opts in
          (case extract_info y (PyStr url) True of
             Inl e \<Rightarrow> Inl e
           | Inr info \<Rightarrow>
               (case resolve_filename y info of
                  Inl e \<Rightarrow> Inl e
                | Inr filename \<Rightarrow>
                    if filename \<noteq> [] \<and> path_exists filename
                    then (case send_file filename of
                            Inr file \<Rightarrow> Inr (file, HTTP_OK)
                          | Inl file_error \<Rightarrow>
                              Inr (Json [''error'' \<mapsto> PyStr (exc_str file_error)],
                                   HTTP_INTERNAL_SERVER_ERROR))
                    else Inr (Json [''error'' \<mapsto> PyStr ERR_FILE_NOT_FOUND],
                              HTTP_INTERNAL_SERVER_ERROR))))"

text \<open>
  \<open>args\<close> are the query parameters, each a string; \<^verbatim>\<open>args.get('url')\<close> is
  \<^verbatim>\<open>None\<close> when the parameter is absent.
\<close>

definition download_video ::
  "(string \<rightharpoonup> string) \<Rightarrow> int \<Rightarrow> (ydl_opts \<Rightarrow> ydl) \<Rightarrow> (string \<Rightarrow> bool) \<Rightarrow>
   (string \<Rightarrow> py_exception + body) \<Rightarrow> response" where
  "download_video args now YoutubeDL path_exists send_file =
     (let url = args ''url'';
          quality = dict_get args ''quality'' DEFAULT_QUALITY
      in case url of
           None \<Rightarrow> (Json [''error'' \<mapsto> PyStr ERR_URL_REQUIRED], HTTP_BAD_REQUEST)
         | Some u \<Rightarrow>
             if u = [] then (Json [''error'' \<mapsto> PyStr ERR_URL_REQUIRED], HTTP_BAD_REQUEST)
             else
               (case download_video_try u quality now YoutubeDL path_exists send_file of
                  Inr r \<Rightarrow> r
                | Inl error \<Rightarrow>
                    (Json [''error'' \<mapsto> PyStr (exc_str error)], HTTP_INTERNAL_SERVER_ERROR)))"

section \<open>Reading decimal strings\<close>

text \<open>
  What a string of decimal digits denotes, independently of how \<open>show_nat\<close> produces
  one: the value read digit by digit from the left, and the numerals without padding
  (no leading zero, except for the numeral \<open>0\<close> itself). The properties below are stated
  against these.
\<close>

definition is_digit :: "char \<Rightarrow> bool" where
  "is_digit c = (c \<in> set ''0123456789'')"

definition digit_value :: "char \<Rightarrow> nat" where
  "digit_value c = of_char c - 48"

definition decimal_value :: "string \<Rightarrow> nat" where
  "decimal_value s = foldl (\<lambda>acc c. 10 * acc + digit_value c) 0 s"

definition canonical_decimal :: "string \<Rightarrow> bool" where
  "canonical_decimal s =
     (s \<noteq> [] \<and> list_all is_digit s \<and> (s = ''0'' \<or> hd s \<noteq> CHR ''0''))"

section \<open>Decimal rendering\<close>

lemma digit_below_ten: "d < 10 \<Longrightarrow> d \<in> {0, 1, 2, 3, 4, 5, 6, 7, 8, 9 :: nat}"
  by auto

lemma digit_value_digit_char: "d < 10 \<Longrightarrow> digit_value (digit_char d) = d"
  by (drule digit_below_ten) (auto simp: digit_value_def digit_char_def)

lemma is_digit_digit_char: "d < 10 \<Longrightarrow> is_digit (digit_char d)"
  by (drule digit_below_ten) (auto simp: is_digit_def digit_char_def)

lemma digit_char_zero_iff: "d < 10 \<Longrightarrow> digit_char d = CHR ''0'' \<longleftrightarrow> d = 0"
  by (drule digit_below_ten) (auto simp: digit_char_def)

lemma decimal_value_snoc:
  "decimal_value (s @ [c]) = 10 * decimal_value s + digit_value c"
  by (simp add: decimal_value_def)

lemma show_nat_nonempty: "show_nat n \<noteq> []"
  by (subst show_nat.simps) simp

lemma show_nat_zero: "show_nat 0 = ''0''"
  by (simp add: show_nat.simps digit_char_def)

text \<open>Reading back what \<open>show_nat\<close> wrote gives the number: the rendering loses nothing.\<close>

lemma decimal_value_show_nat: "decimal_value (show_nat n) = n"
proof (induction n rule: show_nat.induct)
  case (1 n)
  show ?case
  proof (cases "n < 10")
    case True
    then show ?thesis
      by (subst show_nat.simps) (simp add: decimal_value_def digit_value_digit_char)
  next
    case False
    with 1 have "decimal_value (show_nat (n div 10)) = n div 10" by simp
    with False show ?thesis
      by (subst show_nat.simps) (simp add: decimal_value_snoc digit_value_digit_char)
  qed
qed

lemma digits_show_nat: "list_all is_digit (show_nat n)"
proof (induction n rule: show_nat.induct)
  case (1 n)
  then show ?case
    by (subst show_nat.simps) (simp add: is_digit_digit_char)
qed

lemma hd_show_nat: "0 < n \<Longrightarrow> hd (show_nat n) \<noteq> CHR ''0''"
proof (induction n rule: show_nat.induct)
  case (1 n)
  show ?case
  proof (cases "n < 10")
    case True
    with 1(2) show ?thesis
      by (subst show_nat.simps) (simp add: digit_char_zero_iff)
  next
    case False
    then have "0 < n div 10" by simp
    with 1 False have "hd (show_nat (n div 10)) \<noteq> CHR ''0''" by simp
    with False show ?thesis
      by (subst show_nat.simps) (simp add: show_nat_nonempty)
  qed
qed

lemma canonical_show_nat: "canonical_decimal (show_nat n)"
proof (cases "n = 0")
  case True
  then show ?thesis
    by (simp add: canonical_decimal_def show_nat_zero is_digit_def)
next
  case False
  then show ?thesis
    by (simp add: canonical_decimal_def show_nat_nonempty digits_show_nat hd_show_nat)
qed

lemma length_show_nat_small: "n < 10 \<Longrightarrow> length (show_nat n) = 1"
  by (subst show_nat.simps) simp

lemma length_show_nat_two: "10 \<le> n \<Longrightarrow> n < 100 \<Longrightarrow> length (show_nat n) = 2"
  by (subst show_nat.simps) (simp add: length_show_nat_small)

lemma decimal_value_zeros: "decimal_value (replicate k (CHR ''0'') @ s) = decimal_value s"
proof -
  have "foldl (\<lambda>acc c. 10 * acc + digit_value c) 0 (replicate k (CHR ''0'')) = 0"
    by (induction k) (simp_all add: digit_value_def)
  then show ?thesis by (simp add: decimal_value_def)
qed

lemma py_format_02d_small:
  assumes "0 \<le> n" "n < 100"
  shows "length (py_format_02d n) = 2 \<and> list_all is_digit (py_format_02d n)
         \<and> int (decimal_value (py_format_02d n)) = n"
proof -
  have len: "length (show_nat (nat n)) = 1 \<or> length (show_nat (nat n)) = 2"
    using assms length_show_nat_small [of "nat n"] length_show_nat_two [of "nat n"]
    by (cases "nat n < 10") auto
  have zero: "is_digit (CHR ''0'')" by (simp add: is_digit_def)
  have eq: "py_format_02d n =
      replicate (2 - length (show_nat (nat n))) (CHR ''0'') @ show_nat (nat n)"
    using assms by (simp add: py_format_02d_def Let_def)
  have "length (py_format_02d n) = 2"
    using len by (auto simp: eq)
  moreover have "list_all is_digit (replicate k (CHR ''0''))" for k
    using zero by (induction k) simp_all
  then have "list_all is_digit (py_format_02d n)"
    by (simp add: eq digits_show_nat)
  moreover have "int (decimal_value (py_format_02d n)) = n"
    using assms by (simp add: eq decimal_value_zeros decimal_value_show_nat)
  ultimately show ?thesis by simp
qed

lemma py_format_d_nonneg:
  assumes "0 \<le> n"
  shows "canonical_decimal (py_format_d n) \<and> int (decimal_value (py_format_d n)) = n"
  using assms by (simp add: py_format_d_def canonical_show_nat decimal_value_show_nat)

lemmas render_simps =
  py_format_d_def py_format_02d_def show_nat.simps digit_char_def

section \<open>Floats that are integers, and small floats\<close>

lemma floor_rat_numeral_div: "\<lfloor>(numeral a :: rat) / numeral b\<rfloor> = numeral a div numeral b"
  by (metis floor_divide_of_int_eq of_int_numeral)

text \<open>
  An integer below \<open>2 ^ 53\<close> in absolute value is a binary64 value: rounding leaves it
  as it is.
\<close>

lemma round_half_even_of_int: "round_half_even (of_int m) = m"
  by (simp add: round_half_even_def)

lemma binary_exponent_of_int:
  assumes "0 < n" and "n < 2 ^ 53"
  shows "binary_exponent (of_int n) = bitlen n - 1"
    and "0 \<le> bitlen n - 1" and "bitlen n - 1 \<le> 52"
proof -
  from assms(1) have "(1::rat) \<le> of_int n" by simp
  then show "binary_exponent (of_int n) = bitlen n - 1"
    by (simp add: binary_exponent_def)
  from assms(1) have "1 \<le> bitlen n"
    by (simp add: bitlen_ge_iff_power)
  then show "0 \<le> bitlen n - 1" by simp
  from assms(2) have "bitlen n \<le> 53"
    by (simp add: bitlen_le_iff_power)
  then show "bitlen n - 1 \<le> 52" by simp
qed

lemma round_double_pos_int:
  assumes "0 < n" and "n < 2 ^ 53"
  shows "round_double (of_int n) = Finite (of_int n)"
proof -
  define e where "e = bitlen n - 1"
  define k where "k = nat (52 - e)"
  from binary_exponent_of_int [OF assms] have be: "binary_exponent (of_int n) = e"
    and e: "0 \<le> e" "e \<le> 52"
    by (simp_all add: e_def)
  from e have ulp: "pow2 (max e (- 1022) - 52) = 1 / 2 ^ k"
    by (cases "e = 52") (simp_all add: pow2_def k_def max_def)
  have scaled: "(of_int n :: rat) / (1 / 2 ^ k) = of_int (n * 2 ^ k)"
    by simp
  have r: "sgn (of_int n :: rat) * of_int (n * 2 ^ k) * (1 / 2 ^ k) = of_int n"
    using assms(1) by simp
  have small: "\<not> pow2 1024 \<le> \<bar>of_int n :: rat\<bar>"
  proof -
    from assms have "(of_int n :: rat) < 2 ^ 53"
      by (metis of_int_less_iff of_int_numeral of_int_power)
    also have "\<dots> < 2 ^ 1024" by (rule power_strict_increasing) simp_all
    finally show ?thesis using assms(1) by (simp add: pow2_def)
  qed
  from assms(1) have abs: "\<bar>of_int n :: rat\<bar> = of_int n" and nz: "(of_int n :: rat) \<noteq> 0"
    by simp_all
  show ?thesis
    unfolding round_double_def Let_def abs be ulp scaled round_half_even_of_int r
    using nz small abs by simp
qed

lemma round_double_nonneg_int:
  assumes "0 \<le> n" and "n < 2 ^ 53"
  shows "round_double (of_int n) = Finite (of_int n)"
proof (cases "n = 0")
  case True
  then show ?thesis by (simp add: round_double_def)
next
  case False
  with assms show ?thesis by (simp add: round_double_pos_int)
qed

text \<open>
  On a float from 0 up to \<open>2 ^ 53\<close>, every step of \<^verbatim>\<open>x // 60\<close> is exact: the
  quotient is the floor of the sixtieth.
\<close>

lemma floor_sixtieth:
  fixes q :: rat
  assumes "0 \<le> q"
  shows "0 \<le> \<lfloor>q / 60\<rfloor>" and "60 * of_int \<lfloor>q / 60\<rfloor> \<le> q"
    and "q < 60 * of_int \<lfloor>q / 60\<rfloor> + 60"
proof -
  from assms show "0 \<le> \<lfloor>q / 60\<rfloor>" by simp
  have "of_int \<lfloor>q / 60\<rfloor> \<le> q / 60" by (rule of_int_floor_le)
  then show "60 * of_int \<lfloor>q / 60\<rfloor> \<le> q" by simp
  have "q / 60 < of_int \<lfloor>q / 60\<rfloor> + 1" by linarith
  then show "q < 60 * of_int \<lfloor>q / 60\<rfloor> + 60" by simp
qed

lemma fmod_60_nonneg:
  assumes "0 \<le> q"
  shows "fmod q 60 = q - 60 * of_int \<lfloor>q / 60\<rfloor>"
  using assms by (simp add: fmod_def trunc_int_def)

lemma float_mod_60_nonneg:
  assumes "0 \<le> q"
  shows "float_mod_60 (Finite q) = Finite (q - 60 * of_int \<lfloor>q / 60\<rfloor>)"
  using assms floor_sixtieth(2) [OF assms]
  by (auto simp: float_mod_60_def fmod_60_nonneg Let_def)

lemma float_floordiv_60_small:
  assumes "0 \<le> q" and "q < 2 ^ 53"
  shows "float_floordiv_60 (Finite q) = Finite (of_int \<lfloor>q / 60\<rfloor>)"
proof -
  define k where "k = \<lfloor>q / 60\<rfloor>"
  from floor_sixtieth [OF assms(1)] have k: "0 \<le> k" and le: "60 * of_int k \<le> q"
    by (simp_all add: k_def)
  from le assms(2) have "(of_int (60 * k) :: rat) < of_int (2 ^ 53)" by simp
  then have k60: "60 * k < 2 ^ 53" by (simp only: of_int_less_iff)
  with k have ksmall: "k < 2 ^ 53" by simp
  have rem: "fmod q 60 = q - 60 * of_int k"
    using assms(1) by (simp add: fmod_60_nonneg k_def)
  from le have rem_nonneg: "\<not> q - 60 * of_int k < 0" by simp
  have diff: "round_double (60 * rat_of_int k) = Finite (60 * rat_of_int k)"
    using round_double_nonneg_int [of "60 * k"] k k60 by simp
  have quot: "round_double (rat_of_int k) = Finite (rat_of_int k)"
    using round_double_nonneg_int [OF k ksmall] .
  have zero: "round_double 0 = Finite 0" by (simp add: round_double_def)
  show ?thesis
    unfolding float_floordiv_60_def
    using rem_nonneg
    by (simp add: Let_def rem diff quot zero k_def [symmetric])
qed

lemma format_duration_float_small:
  assumes "0 \<le> q" and "q < 2 ^ 53"
  shows "format_duration (PyFloat (Finite q)) =
     Inr (py_format_d \<lfloor>q / 60\<rfloor> @ '':'' @ py_format_02d \<lfloor>q - 60 * of_int \<lfloor>q / 60\<rfloor>\<rfloor>)"
proof -
  from floor_sixtieth [OF assms(1)] have "0 \<le> q - 60 * of_int \<lfloor>q / 60\<rfloor>" by simp
  with assms show ?thesis
    by (simp add: format_duration_def float_floordiv_60_small float_mod_60_nonneg trunc_int_def)
qed

lemma seconds_of_float:
  fixes q :: rat
  assumes "0 \<le> q"
  shows "0 \<le> \<lfloor>q - 60 * of_int \<lfloor>q / 60\<rfloor>\<rfloor>" and "\<lfloor>q - 60 * of_int \<lfloor>q / 60\<rfloor>\<rfloor> < 60"
proof -
  from floor_sixtieth [OF assms] have "0 \<le> q - 60 * of_int \<lfloor>q / 60\<rfloor>"
    and "q - 60 * of_int \<lfloor>q / 60\<rfloor> < 60"
    by simp_all
  then show "0 \<le> \<lfloor>q - 60 * of_int \<lfloor>q / 60\<rfloor>\<rfloor>" and "\<lfloor>q - 60 * of_int \<lfloor>q / 60\<rfloor>\<rfloor> < 60"
    by (simp_all add: floor_less_iff)
qed


section \<open>format_duration on numbers\<close>

text \<open>
  Claim C6, as amended. For every non-negative integer duration \<open>D\<close>, and for every
  finite floating-point duration \<open>D\<close> from 0 up to \<open>2 ^ 53\<close>, \<open>format_duration\<close> returns
  the decimal numeral of the floor of \<open>D / 60\<close> without padding, a colon, and the floor of
  \<open>D mod 60\<close> as exactly two decimal digits; so 330 gives \<open>5:30\<close>, 59 gives \<open>0:59\<close> and
  3600 gives \<open>60:00\<close>. The numerals are characterised by what they read back to, not by
  the function that wrote them.
\<close>

theorem format_duration_minutes_seconds:
  "(0 \<le> D \<longrightarrow>
      format_duration (PyInt D) = Inr (py_format_d (D div 60) @ '':'' @ py_format_02d (D mod 60))
      \<and> canonical_decimal (py_format_d (D div 60))
      \<and> int (decimal_value (py_format_d (D div 60))) = D div 60
      \<and> length (py_format_02d (D mod 60)) = 2
      \<and> list_all is_digit (py_format_02d (D mod 60))
      \<and> int (decimal_value (py_format_02d (D mod 60))) = D mod 60)
   \<and> (0 \<le> q \<and> q < 2 ^ 53 \<longrightarrow>
      format_duration (PyFloat (Finite q)) =
        Inr (py_format_d \<lfloor>q / 60\<rfloor> @ '':'' @ py_format_02d \<lfloor>q - 60 * of_int \<lfloor>q / 60\<rfloor>\<rfloor>)
      \<and> canonical_decimal (py_format_d \<lfloor>q / 60\<rfloor>)
      \<and> int (decimal_value (py_format_d \<lfloor>q / 60\<rfloor>)) = \<lfloor>q / 60\<rfloor>
      \<and> length (py_format_02d \<lfloor>q - 60 * of_int \<lfloor>q / 60\<rfloor>\<rfloor>) = 2
      \<and> list_all is_digit (py_format_02d \<lfloor>q - 60 * of_int \<lfloor>q / 60\<rfloor>\<rfloor>)
      \<and> int (decimal_value (py_format_02d \<lfloor>q - 60 * of_int \<lfloor>q / 60\<rfloor>\<rfloor>))
          = \<lfloor>q - 60 * of_int \<lfloor>q / 60\<rfloor>\<rfloor>)
   \<and> format_duration (PyInt 330) = Inr ''5:30''
   \<and> format_duration (PyInt 59) = Inr ''0:59''
   \<and> format_duration (PyInt 3600) = Inr ''60:00''"
proof (intro conjI impI)
  assume D: "0 \<le> D"
  then have m: "0 \<le> D div 60" by simp
  have s: "0 \<le> D mod 60" "D mod 60 < 100"
    using pos_mod_bound [of 60 D] by simp_all
  show "format_duration (PyInt D) = Inr (py_format_d (D div 60) @ '':'' @ py_format_02d (D mod 60))"
    by (simp add: format_duration_def)
  from py_format_d_nonneg [OF m]
  show "canonical_decimal (py_format_d (D div 60))"
    and "int (decimal_value (py_format_d (D div 60))) = D div 60"
    by simp_all
  from py_format_02d_small [OF s]
  show "length (py_format_02d (D mod 60)) = 2"
    and "list_all is_digit (py_format_02d (D mod 60))"
    and "int (decimal_value (py_format_02d (D mod 60))) = D mod 60"
    by simp_all
next
  let ?m = "\<lfloor>q / 60\<rfloor>" and ?s = "\<lfloor>q - 60 * of_int \<lfloor>q / 60\<rfloor>\<rfloor>"
  assume "0 \<le> q \<and> q < 2 ^ 53"
  then have q: "0 \<le> q" "q < 2 ^ 53" by simp_all
  from q(1) have m: "0 \<le> ?m" by simp
  from seconds_of_float [OF q(1)] have s: "0 \<le> ?s" "?s < 100" by simp_all
  from q show "format_duration (PyFloat (Finite q)) =
      Inr (py_format_d ?m @ '':'' @ py_format_02d ?s)"
    by (rule format_duration_float_small)
  from py_format_d_nonneg [OF m]
  show "canonical_decimal (py_format_d ?m)" and "int (decimal_value (py_format_d ?m)) = ?m"
    by simp_all
  from py_format_02d_small [OF s]
  show "length (py_format_02d ?s) = 2" and "list_all is_digit (py_format_02d ?s)"
    and "int (decimal_value (py_format_02d ?s)) = ?s"
    by simp_all
next
  show "format_duration (PyInt 330) = Inr ''5:30''"
    and "format_duration (PyInt 59) = Inr ''0:59''"
    and "format_duration (PyInt 3600) = Inr ''60:00''"
    by (simp_all add: format_duration_def render_simps)
qed

theorem format_duration_minutes_seconds_witness:
  "(0::int) \<le> 125
   \<and> format_duration (PyInt 125) = Inr ''2:05''
   \<and> canonical_decimal ''2'' \<and> decimal_value ''2'' = 2
   \<and> length ''05'' = 2 \<and> list_all is_digit ''05'' \<and> decimal_value ''05'' = 5
   \<and> (0::rat) \<le> 425 / 2 \<and> (425 / 2 :: rat) < 2 ^ 53
   \<and> format_duration (PyFloat (Finite (425 / 2))) = Inr ''3:32''
   \<and> canonical_decimal ''3'' \<and> decimal_value ''3'' = 3
   \<and> length ''32'' = 2 \<and> list_all is_digit ''32'' \<and> decimal_value ''32'' = 32"
proof -
  have m: "py_format_d (125 div 60) = ''2''" and s: "py_format_02d (125 mod 60) = ''05''"
    by (simp_all add: render_simps)
  have fl: "\<lfloor>(425 / 2 :: rat) / 60\<rfloor> = 3" "\<lfloor>(425 / 2 :: rat) - 60 * of_int 3\<rfloor> = 32"
    by (simp_all add: floor_rat_numeral_div)
  have fm: "py_format_d 3 = ''3''" and fs: "py_format_02d 32 = ''32''"
    by (simp_all add: render_simps)
  from format_duration_minutes_seconds [of 125 "425 / 2"] show ?thesis
    unfolding m s fl fm fs by simp
qed

lemmas float_eval =
  float_floordiv_60_def float_mod_60_def fmod_def trunc_int_def round_double_def
  binary_exponent_def compute_bitlen pow2_def round_half_even_def floor_rat_numeral_div Let_def

text \<open>
  The claim as it was stated fails on floats. On the infinite duration the quotient is
  NaN and \<^verbatim>\<open>int\<close> raises. On the finite duration \<open>1e22\<close> the quotient is rounded, and
  the minutes printed are not the floor of \<open>D / 60\<close>.
\<close>

theorem format_duration_float_counterexample:
  "format_duration (PyFloat PosInf) = Inl (ValueError ''cannot convert float NaN to integer'')
   \<and> format_duration (PyFloat (Finite 10000000000000000000000)) = Inr ''166666666666666655744:40''
   \<and> py_format_d \<lfloor>(10000000000000000000000 :: rat) / 60\<rfloor> = ''166666666666666666666''"
proof -
  have inf: "format_duration (PyFloat PosInf) =
      Inl (ValueError ''cannot convert float NaN to integer'')"
    by (simp add: format_duration_def float_floordiv_60_def)
  have rem: "fmod 10000000000000000000000 60 = 40"
    by (simp add: fmod_def trunc_int_def floor_rat_numeral_div)
  have diff: "round_double 9999999999999999999960 = Finite 10000000000000000000000"
    by (simp add: float_eval)
  have quot: "round_double (500000000000000000000 / 3) = Finite 166666666666666655744"
    by (simp add: float_eval)
  have zero: "round_double 0 = Finite 0" by (simp add: round_double_def)
  have minutes: "float_floordiv_60 (Finite 10000000000000000000000) = Finite 166666666666666655744"
    unfolding float_floordiv_60_def by (simp add: Let_def rem diff quot zero)
  have seconds: "float_mod_60 (Finite 10000000000000000000000) = Finite 40"
    unfolding float_mod_60_def by (simp add: Let_def rem)
  have big: "format_duration (PyFloat (Finite 10000000000000000000000)) =
      Inr ''166666666666666655744:40''"
    by (simp add: format_duration_def minutes seconds trunc_int_def render_simps)
  have exact: "py_format_d \<lfloor>(10000000000000000000000 :: rat) / 60\<rfloor> = ''166666666666666666666''"
    by (simp add: floor_rat_numeral_div render_simps)
  from inf big exact show ?thesis by simp
qed

section \<open>get_quality_format_string\<close>

text \<open>Replacing a one-character string by the empty string deletes that character everywhere.\<close>

lemma replace_scan_delete_char: "replace_scan [x] [] s = filter (\<lambda>c. c \<noteq> x) s"
  by (induction s) auto

lemma py_replace_delete_char: "py_replace s [x] [] = filter (\<lambda>c. c \<noteq> x) s"
  by (simp add: py_replace_def replace_scan_delete_char)

text \<open>
  Claim C1, as amended. Each of the labels \<open>1080p\<close>, \<open>720p\<close>, \<open>480p\<close>, \<open>360p\<close> gives the
  height-capped expression with its own height. In general the height is the label with
  every occurrence of the character \<open>p\<close> deleted, wherever it stands: the capped
  expression is returned exactly when that string is one of \<open>1080\<close>, \<open>720\<close>, \<open>480\<close>,
  \<open>360\<close>, and \<open>best\<close> otherwise, as for the empty label, \<open>4k\<close> and \<open>1080P\<close>.
\<close>

theorem get_quality_format_string_deletes_every_p:
  "get_quality_format_string ''1080p'' = ''bestvideo[height<=1080]+bestaudio/best[height<=1080]''
   \<and> get_quality_format_string ''720p'' = ''bestvideo[height<=720]+bestaudio/best[height<=720]''
   \<and> get_quality_format_string ''480p'' = ''bestvideo[height<=480]+bestaudio/best[height<=480]''
   \<and> get_quality_format_string ''360p'' = ''bestvideo[height<=360]+bestaudio/best[height<=360]''
   \<and> get_quality_format_string quality =
        (if filter (\<lambda>c. c \<noteq> CHR ''p'') quality \<in> {''1080'', ''720'', ''480'', ''360''}
         then ''bestvideo[height<='' @ filter (\<lambda>c. c \<noteq> CHR ''p'') quality
              @ '']+bestaudio/best[height<='' @ filter (\<lambda>c. c \<noteq> CHR ''p'') quality @ '']''
         else ''best'')
   \<and> get_quality_format_string [] = ''best''
   \<and> get_quality_format_string ''4k'' = ''best''
   \<and> get_quality_format_string ''1080P'' = ''best''"
proof -
  have general: "get_quality_format_string q =
        (if filter (\<lambda>c. c \<noteq> CHR ''p'') q \<in> {''1080'', ''720'', ''480'', ''360''}
         then ''bestvideo[height<='' @ filter (\<lambda>c. c \<noteq> CHR ''p'') q
              @ '']+bestaudio/best[height<='' @ filter (\<lambda>c. c \<noteq> CHR ''p'') q @ '']''
         else ''best'')" for q
    by (simp add: get_quality_format_string_def py_replace_delete_char)
  have labels:
    "get_quality_format_string ''1080p'' = ''bestvideo[height<=1080]+bestaudio/best[height<=1080]''"
    "get_quality_format_string ''720p'' = ''bestvideo[height<=720]+bestaudio/best[height<=720]''"
    "get_quality_format_string ''480p'' = ''bestvideo[height<=480]+bestaudio/best[height<=480]''"
    "get_quality_format_string ''360p'' = ''bestvideo[height<=360]+bestaudio/best[height<=360]''"
    by (simp_all add: general)
  have others:
    "get_quality_format_string [] = ''best''"
    "get_quality_format_string ''4k'' = ''best''"
    "get_quality_format_string ''1080P'' = ''best''"
    by (simp_all add: general)
  from labels others general [of quality] show ?thesis by blast
qed

theorem get_quality_format_string_deletes_every_p_witness:
  "get_quality_format_string ''480'' = ''bestvideo[height<=480]+bestaudio/best[height<=480]''
   \<and> get_quality_format_string ''hd'' = ''best''"
  using get_quality_format_string_deletes_every_p [of "''480''"]
    get_quality_format_string_deletes_every_p [of "''hd''"]
  by simp

text \<open>
  The claim as it was stated fails at the label \<open>p1080\<close>: it is none of the four labels,
  its \<open>p\<close> is not a suffix, and yet the \<open>p\<close> is removed and the capped expression
  returned.
\<close>

theorem get_quality_format_string_other_label_counterexample:
  "''p1080'' \<notin> {''1080p'', ''720p'', ''480p'', ''360p''}
   \<and> get_quality_format_string ''p1080'' = ''bestvideo[height<=1080]+bestaudio/best[height<=1080]''
   \<and> get_quality_format_string ''p1080'' \<noteq> ''best''
   \<and> py_replace ''p1080'' ''p'' [] = ''1080''"
  by (simp add: get_quality_format_string_def py_replace_delete_char)

section \<open>get_ydl_opts\<close>

lemma get_ydl_opts_info:
  "get_ydl_opts False t = Inr [''quiet'' \<mapsto> PyBool True, ''no_warnings'' \<mapsto> PyBool True]"
  by (simp add: get_ydl_opts_def)

lemma get_ydl_opts_download:
  "get_ydl_opts True t = Inr
     [''no_warnings'' \<mapsto> PyBool True,
      ''quiet'' \<mapsto> PyBool False,
      ''format'' \<mapsto> PyStr ''bestvideo[height<=1080]+bestaudio/best[height<=1080]'',
      ''outtmpl'' \<mapsto> template_value t,
      ''merge_output_format'' \<mapsto> PyStr ''mp4'']"
  by (simp add: get_ydl_opts_def fun_eq_iff)

lemma download_opts_eq:
  "download_opts now quality = Inr
     [''no_warnings'' \<mapsto> PyBool True,
      ''quiet'' \<mapsto> PyBool False,
      ''outtmpl'' \<mapsto> PyStr (''downloads/%(title)s_'' @ py_format_d now @ ''.%(ext)s''),
      ''merge_output_format'' \<mapsto> PyStr ''mp4'',
      ''format'' \<mapsto> PyStr (get_quality_format_string quality)]"
  by (simp add: download_opts_def path_join_def DOWNLOAD_DIR_def get_ydl_opts_download
      template_value_def fun_eq_iff)

lemma download_opts_returns: "\<not> isl (download_opts now quality)"
  by (simp add: download_opts_eq)

text \<open>
  Claim C7. In info mode the options are \<open>quiet = True\<close> and \<open>no_warnings = True\<close> and
  nothing else: no format, no output template, no merge container. In download mode with
  a template they are \<open>quiet = False\<close>, \<open>no_warnings = True\<close>, a format expression, the
  given template under \<open>outtmpl\<close> and \<open>merge_output_format = mp4\<close>, and nothing else;
  the download handler then stores the Format Selector's result over the format.
  (\<open>isl\<close> holds of a raised exception, \<open>projr\<close> is the returned value.)
\<close>

theorem get_ydl_opts_fields:
  "\<not> isl (get_ydl_opts False t)
   \<and> projr (get_ydl_opts False t) ''quiet'' = Some (PyBool True)
   \<and> projr (get_ydl_opts False t) ''no_warnings'' = Some (PyBool True)
   \<and> projr (get_ydl_opts False t) ''format'' = None
   \<and> projr (get_ydl_opts False t) ''outtmpl'' = None
   \<and> projr (get_ydl_opts False t) ''merge_output_format'' = None
   \<and> dom (projr (get_ydl_opts False t)) = {''quiet'', ''no_warnings''}
   \<and> \<not> isl (get_ydl_opts True (Some template))
   \<and> projr (get_ydl_opts True (Some template)) ''quiet'' = Some (PyBool False)
   \<and> projr (get_ydl_opts True (Some template)) ''no_warnings'' = Some (PyBool True)
   \<and> projr (get_ydl_opts True (Some template)) ''format''
        = Some (PyStr ''bestvideo[height<=1080]+bestaudio/best[height<=1080]'')
   \<and> projr (get_ydl_opts True (Some template)) ''outtmpl'' = Some (PyStr template)
   \<and> projr (get_ydl_opts True (Some template)) ''merge_output_format'' = Some (PyStr ''mp4'')
   \<and> dom (projr (get_ydl_opts True (Some template)))
        = {''quiet'', ''no_warnings'', ''format'', ''outtmpl'', ''merge_output_format''}
   \<and> \<not> isl (download_opts now quality)
   \<and> projr (download_opts now quality) ''format''
        = Some (PyStr (get_quality_format_string quality))
   \<and> projr (download_opts now quality) ''outtmpl''
        = Some (PyStr (''downloads/%(title)s_'' @ py_format_d now @ ''.%(ext)s''))"
proof -
  have info: "get_ydl_opts False t =
      Inr [''quiet'' \<mapsto> PyBool True, ''no_warnings'' \<mapsto> PyBool True]"
    by (rule get_ydl_opts_info)
  have dl: "get_ydl_opts True (Some template) = Inr
     [''no_warnings'' \<mapsto> PyBool True,
      ''quiet'' \<mapsto> PyBool False,
      ''format'' \<mapsto> PyStr ''bestvideo[height<=1080]+bestaudio/best[height<=1080]'',
      ''outtmpl'' \<mapsto> PyStr template,
      ''merge_output_format'' \<mapsto> PyStr ''mp4'']"
    by (simp add: get_ydl_opts_download template_value_def)
  show ?thesis
    unfolding info dl download_opts_eq by auto
qed

theorem get_ydl_opts_fields_witness:
  "projr (get_ydl_opts False None) ''quiet'' = Some (PyBool True)
   \<and> projr (get_ydl_opts True (Some ''downloads/%(title)s_7.%(ext)s'')) ''outtmpl''
        = Some (PyStr ''downloads/%(title)s_7.%(ext)s'')
   \<and> projr (download_opts 7 ''720p'') ''format''
        = Some (PyStr ''bestvideo[height<=720]+bestaudio/best[height<=720]'')"
proof -
  have q: "get_quality_format_string ''720p'' =
      ''bestvideo[height<=720]+bestaudio/best[height<=720]''"
    by (simp add: get_quality_format_string_def py_replace_def)
  from get_ydl_opts_fields [of None "''downloads/%(title)s_7.%(ext)s''" 7 "''720p''"]
  show ?thesis unfolding q by simp
qed

text \<open>
  Claim C8, as amended. The Option Builder never fails: for every mode flag and every
  template, given or not, it returns options. In download mode without a template the
  options it returns hold \<open>None\<close> as the output template.
\<close>

theorem get_ydl_opts_never_fails:
  "\<not> isl (get_ydl_opts download output_template)
   \<and> projr (get_ydl_opts True None) ''outtmpl'' = Some PyNone"
  by (cases download) (simp_all add: get_ydl_opts_info get_ydl_opts_download template_value_def)

theorem get_ydl_opts_never_fails_witness:
  "\<not> isl (get_ydl_opts False (Some ''out.%(ext)s''))
   \<and> projr (get_ydl_opts True None) ''outtmpl'' = Some PyNone"
  using get_ydl_opts_never_fails [of False "Some ''out.%(ext)s''"] by simp

text \<open>
  The claim as it was stated fails in download mode without a template: the call
  returns, with five options, and raises nothing.
\<close>

theorem get_ydl_opts_download_without_template_counterexample:
  "\<not> isl (get_ydl_opts True None)
   \<and> projr (get_ydl_opts True None) ''outtmpl'' = Some PyNone
   \<and> projr (get_ydl_opts True None) ''merge_output_format'' = Some (PyStr ''mp4'')"
  by (simp add: get_ydl_opts_def template_value_def)

text \<open>
  On the store, a call allocates one new dictionary after the existing ones, leaves those
  untouched and fills the new one with what \<open>get_ydl_opts\<close> returns.
\<close>

lemma get_ydl_opts_heap_result:
  "get_ydl_opts_heap d t h = (length h, h @ [projr (get_ydl_opts d t)])"
  by (cases d)
    (simp_all add: get_ydl_opts_heap_def dict_new_def dict_update_def get_ydl_opts_def)

text \<open>
  Claim C9. Two calls with the same mode flag and the same template return the same
  options. On the store this holds whatever the two stores contain, and also when the
  caller has overwritten an entry of the first result before the second call (as the
  download handler does with the format): the second result is a different object with
  the contents the first one had, and no earlier object is changed.
\<close>

theorem get_ydl_opts_deterministic:
  assumes "download1 = download2" and "template1 = template2"
  shows "get_ydl_opts download1 template1 = get_ydl_opts download2 template2
    \<and> snd (get_ydl_opts_heap download1 template1 h1) ! fst (get_ydl_opts_heap download1 template1 h1)
       = snd (get_ydl_opts_heap download2 template2 h2) ! fst (get_ydl_opts_heap download2 template2 h2)
    \<and> (let (r1, ha) = get_ydl_opts_heap download1 template1 h;
            hb = dict_setitem r1 k v ha;
            (r2, hc) = get_ydl_opts_heap download2 template2 hb
        in r2 \<noteq> r1 \<and> hc ! r2 = ha ! r1 \<and> take (length h) hc = h)"
  using assms
  by (simp add: get_ydl_opts_heap_result dict_setitem_def nth_append)

theorem get_ydl_opts_deterministic_witness:
  "True = True \<and> Some ''t'' = Some ''t''
   \<and> get_ydl_opts True (Some ''t'') = get_ydl_opts True (Some ''t'')
   \<and> (let (r1, ha) = get_ydl_opts_heap True (Some ''t'') [];
            hb = dict_setitem r1 ''format'' (PyStr ''best'') ha;
            (r2, hc) = get_ydl_opts_heap True (Some ''t'') hb
        in r2 \<noteq> r1 \<and> hc ! r2 = ha ! r1 \<and> hb ! r1 \<noteq> ha ! r1)"
proof -
  have h: "True = True" "Some ''t'' = Some ''t''" by simp_all
  have changed: "(let (r1, ha) = get_ydl_opts_heap True (Some ''t'') [];
            hb = dict_setitem r1 ''format'' (PyStr ''best'') ha in hb ! r1 \<noteq> ha ! r1)"
    by (simp add: get_ydl_opts_heap_result dict_setitem_def get_ydl_opts_download fun_eq_iff)
  from get_ydl_opts_deterministic [OF h, of "[]" "[]" "[]" "''format''" "PyStr ''best''"] changed
  show ?thesis
    by (simp add: get_ydl_opts_heap_result dict_setitem_def)
qed

section \<open>Resolving the downloaded file\<close>

text \<open>
  \<open>rfind\<close> returns \<open>-1\<close> when the character does not occur, and otherwise the index of
  an occurrence after which there is no other.
\<close>

lemma rfind_from_cases:
  "(c \<notin> set xs \<and> rfind_from c xs i found = found)
   \<or> (i \<le> rfind_from c xs i found \<and> rfind_from c xs i found < i + int (length xs)
      \<and> xs ! nat (rfind_from c xs i found - i) = c
      \<and> c \<notin> set (drop (Suc (nat (rfind_from c xs i found - i))) xs))"
proof (induction xs arbitrary: i found)
  case Nil
  then show ?case by simp
next
  case (Cons x xs)
  let ?r = "rfind_from c xs (i + 1) (if x = c then i else found)"
  from Cons.IH [of "i + 1" "if x = c then i else found"]
  consider (absent) "c \<notin> set xs" "?r = (if x = c then i else found)"
    | (later) "i + 1 \<le> ?r" "?r < i + 1 + int (length xs)" "xs ! nat (?r - (i + 1)) = c"
        "c \<notin> set (drop (Suc (nat (?r - (i + 1)))) xs)"
    by blast
  then show ?case
  proof cases
    case absent
    then show ?thesis by (cases "x = c") simp_all
  next
    case later
    from later(1) have idx: "nat (?r - i) = Suc (nat (?r - (i + 1)))"
      by linarith
    from later idx show ?thesis
      by simp
  qed
qed

lemma rfind_cases:
  "(c \<notin> set s \<and> rfind s c = - 1)
   \<or> (0 \<le> rfind s c \<and> rfind s c < int (length s) \<and> s ! nat (rfind s c) = c
      \<and> c \<notin> set (drop (Suc (nat (rfind s c))) s))"
  using rfind_from_cases [of c s 0 "- 1"] by (simp add: rfind_def)

text \<open>
  The extension \<open>splitext\<close> returns is empty, or a dot followed by characters that are
  neither dots nor separators.
\<close>

lemma splitext_extension:
  "snd (splitext p) = []
   \<or> (\<exists>suffix. snd (splitext p) = CHR ''.'' # suffix
         \<and> CHR ''.'' \<notin> set suffix \<and> CHR ''/'' \<notin> set suffix)"
proof (cases "snd (splitext p) = []")
  case True
  then show ?thesis by simp
next
  case False
  let ?sep = "rfind p (CHR ''/'')" and ?dot = "rfind p (CHR ''.'')"
  from False have gt: "?dot > ?sep" and ext: "snd (splitext p) = drop (nat ?dot) p"
    by (auto simp: splitext_def Let_def split: if_splits)
  from rfind_cases [of "CHR ''/''" p] have sep_ge: "- 1 \<le> ?sep" by auto
  with gt have dot_ge: "0 \<le> ?dot" by simp
  with rfind_cases [of "CHR ''.''" p]
  have dot: "?dot < int (length p)" "p ! nat ?dot = CHR ''.''"
    "CHR ''.'' \<notin> set (drop (Suc (nat ?dot)) p)"
    by auto
  from dot(1) dot_ge have "drop (nat ?dot) p = p ! nat ?dot # drop (Suc (nat ?dot)) p"
    by (simp add: Cons_nth_drop_Suc)
  with ext dot(2) have shape: "snd (splitext p) = CHR ''.'' # drop (Suc (nat ?dot)) p"
    by simp
  have "CHR ''/'' \<notin> set (drop (Suc (nat ?dot)) p)"
  proof (cases "CHR ''/'' \<in> set p")
    case False
    then show ?thesis by (auto dest: in_set_dropD)
  next
    case True
    with rfind_cases [of "CHR ''/''" p]
    have no_sep: "CHR ''/'' \<notin> set (drop (Suc (nat ?sep)) p)" and "0 \<le> ?sep"
      by auto
    with gt have "Suc (nat ?sep) \<le> Suc (nat ?dot)" by simp
    then have "set (drop (Suc (nat ?dot)) p) \<subseteq> set (drop (Suc (nat ?sep)) p)"
      by (rule set_drop_subset_set_drop)
    with no_sep show ?thesis by blast
  qed
  with shape dot(3) show ?thesis by simp
qed

text \<open>The two parts \<open>splitext\<close> returns are a split of the path.\<close>

lemma splitext_append: "fst (splitext p) @ snd (splitext p) = p"
  by (simp add: splitext_def Let_def)

lemma resolve_filename_listed:
  assumes "requested_downloads info = Some (first # rest)" and "first ''filepath'' = Some p"
  shows "resolve_filename y info = Inr p"
  using assms by (simp add: resolve_filename_def)

lemma resolve_filename_derived:
  assumes "requested_downloads info = None" and "prepare_filename y info = Inr filename"
  shows "resolve_filename y info =
      Inr (if snd (splitext filename) \<noteq> ''.mp4'' then fst (splitext filename) @ ''.mp4''
           else filename)"
  using assms by (simp add: resolve_filename_def split: prod.splits)

lemma resolve_filename_derived_mp4:
  assumes "requested_downloads info = None" and "prepare_filename y info = Inr filename"
  shows "\<exists>stem. resolve_filename y info = Inr (stem @ ''.mp4'')"
proof (cases "snd (splitext filename) = ''.mp4''")
  case True
  with splitext_append [of filename] have "filename = fst (splitext filename) @ ''.mp4''"
    by simp
  with True resolve_filename_derived [OF assms] show ?thesis by auto
next
  case False
  with resolve_filename_derived [OF assms] show ?thesis by auto
qed

lemma download_video_try_resolved:
  assumes "extract_info (YoutubeDL (projr (download_opts now quality))) (PyStr url) True = Inr info"
    and "resolve_filename (YoutubeDL (projr (download_opts now quality))) info = Inr filename"
  shows "download_video_try url quality now YoutubeDL path_exists send_file =
     (if filename \<noteq> [] \<and> path_exists filename
      then (case send_file filename of
              Inr file \<Rightarrow> Inr (file, 200)
            | Inl file_error \<Rightarrow> Inr (Json [''error'' \<mapsto> PyStr (exc_str file_error)], 500))
      else Inr (Json [''error'' \<mapsto> PyStr ''File not found after download''], 500))"
proof -
  obtain opts where opts: "download_opts now quality = Inr opts"
    using download_opts_returns [of now quality] by (cases "download_opts now quality") auto
  with assms show ?thesis
    by (simp add: download_video_try_def HTTP_OK_def HTTP_INTERNAL_SERVER_ERROR_def
        ERR_FILE_NOT_FOUND_def split: sum.splits)
qed

text \<open>
  Claim C2. When the extractor's result has a \<open>requested_downloads\<close> list, the resolved
  path is the \<open>filepath\<close> of its first entry, unchanged. When it has none, the path is
  the one derived from the naming template, with the extension replaced by \<open>.mp4\<close>
  whenever it is not \<open>.mp4\<close> already, so that the resolved path always ends in
  \<open>.mp4\<close>. The existence check and the sending of the file are made on the resolved
  path.
\<close>

theorem resolve_filename_cases:
  "(requested_downloads info = Some (first # rest) \<and> first ''filepath'' = Some p
      \<longrightarrow> resolve_filename y info = Inr p)
   \<and> (requested_downloads info = None \<and> prepare_filename y info = Inr filename
      \<longrightarrow> resolve_filename y info =
            Inr (if snd (splitext filename) \<noteq> ''.mp4'' then fst (splitext filename) @ ''.mp4''
                 else filename)
          \<and> (\<exists>stem. resolve_filename y info = Inr (stem @ ''.mp4'')))
   \<and> (extract_info (YoutubeDL (projr (download_opts now quality))) (PyStr url) True = Inr info
        \<and> resolve_filename (YoutubeDL (projr (download_opts now quality))) info = Inr resolved
        \<and> \<not> path_exists resolved
      \<longrightarrow> download_video_try url quality now YoutubeDL path_exists send_file
            = Inr (Json [''error'' \<mapsto> PyStr ''File not found after download''], 500))
   \<and> (extract_info (YoutubeDL (projr (download_opts now quality))) (PyStr url) True = Inr info
        \<and> resolve_filename (YoutubeDL (projr (download_opts now quality))) info = Inr resolved
        \<and> resolved \<noteq> [] \<and> path_exists resolved \<and> send_file resolved = Inr sent
      \<longrightarrow> download_video_try url quality now YoutubeDL path_exists send_file
            = Inr (sent, 200))"
proof (intro conjI impI)
  assume "requested_downloads info = Some (first # rest) \<and> first ''filepath'' = Some p"
  then show "resolve_filename y info = Inr p"
    by (simp add: resolve_filename_listed)
next
  assume a: "requested_downloads info = None \<and> prepare_filename y info = Inr filename"
  then show "resolve_filename y info =
            Inr (if snd (splitext filename) \<noteq> ''.mp4'' then fst (splitext filename) @ ''.mp4''
                 else filename)"
    by (simp add: resolve_filename_derived)
  from a show "\<exists>stem. resolve_filename y info = Inr (stem @ ''.mp4'')"
    by (simp add: resolve_filename_derived_mp4)
next
  assume "extract_info (YoutubeDL (projr (download_opts now quality))) (PyStr url) True = Inr info
        \<and> resolve_filename (YoutubeDL (projr (download_opts now quality))) info = Inr resolved
        \<and> \<not> path_exists resolved"
  then show "download_video_try url quality now YoutubeDL path_exists send_file
            = Inr (Json [''error'' \<mapsto> PyStr ''File not found after download''], 500)"
    by (simp add: download_video_try_resolved)
next
  assume "extract_info (YoutubeDL (projr (download_opts now quality))) (PyStr url) True = Inr info
        \<and> resolve_filename (YoutubeDL (projr (download_opts now quality))) info = Inr resolved
        \<and> resolved \<noteq> [] \<and> path_exists resolved \<and> send_file resolved = Inr sent"
  then show "download_video_try url quality now YoutubeDL path_exists send_file
            = Inr (sent, 200)"
    by (simp add: download_video_try_resolved)
qed

lemma splitext_mkv:
  "splitext ''downloads/clip_1700000000.mkv'' = (''downloads/clip_1700000000'', ''.mkv'')"
  by (simp add: splitext_def rfind_def)

theorem resolve_filename_cases_witness:
  "resolve_filename
      \<lparr>extract_info = (\<lambda>u d. Inl (Raised ''unused'')),
       prepare_filename = (\<lambda>i. Inr ''downloads/clip_1700000000.mkv'')\<rparr>
      \<lparr>meta = Map.empty,
       requested_downloads = Some [[''filepath'' \<mapsto> ''downloads/clip_1700000000.webm'']]\<rparr>
     = Inr ''downloads/clip_1700000000.webm''
   \<and> resolve_filename
      \<lparr>extract_info = (\<lambda>u d. Inl (Raised ''unused'')),
       prepare_filename = (\<lambda>i. Inr ''downloads/clip_1700000000.mkv'')\<rparr>
      \<lparr>meta = Map.empty, requested_downloads = None\<rparr>
     = Inr ''downloads/clip_1700000000.mp4''
   \<and> download_video_try ''https://example.org/v'' ''720p'' 1700000000
        (\<lambda>opts. \<lparr>extract_info = (\<lambda>u d. Inr \<lparr>meta = Map.empty, requested_downloads = None\<rparr>),
                 prepare_filename = (\<lambda>i. Inr ''downloads/clip_1700000000.mkv'')\<rparr>)
        (\<lambda>f. False) (\<lambda>f. Inr (Attachment f))
     = Inr (Json [''error'' \<mapsto> PyStr ''File not found after download''], 500)
   \<and> download_video_try ''https://example.org/v'' ''720p'' 1700000000
        (\<lambda>opts. \<lparr>extract_info = (\<lambda>u d. Inr \<lparr>meta = Map.empty, requested_downloads = None\<rparr>),
                 prepare_filename = (\<lambda>i. Inr ''downloads/clip_1700000000.mkv'')\<rparr>)
        (\<lambda>f. f = ''downloads/clip_1700000000.mp4'') (\<lambda>f. Inr (Attachment f))
     = Inr (Attachment ''downloads/clip_1700000000.mp4'', 200)"
proof -
  let ?y = "\<lparr>extract_info = (\<lambda>u d. Inl (Raised ''unused'')),
       prepare_filename = (\<lambda>i. Inr ''downloads/clip_1700000000.mkv'')\<rparr>"
  let ?info = "\<lparr>meta = Map.empty, requested_downloads = None\<rparr>"
  let ?Y = "\<lambda>opts :: ydl_opts. \<lparr>extract_info = (\<lambda>u d. Inr ?info),
                 prepare_filename = (\<lambda>i. Inr ''downloads/clip_1700000000.mkv'')\<rparr>"
  have listed: "resolve_filename ?y
      \<lparr>meta = Map.empty,
       requested_downloads = Some [[''filepath'' \<mapsto> ''downloads/clip_1700000000.webm'']]\<rparr>
     = Inr ''downloads/clip_1700000000.webm''"
    using resolve_filename_cases
      [where info = "\<lparr>meta = Map.empty,
          requested_downloads = Some [[''filepath'' \<mapsto> ''downloads/clip_1700000000.webm'']]\<rparr>"
        and first = "[''filepath'' \<mapsto> ''downloads/clip_1700000000.webm'']" and rest = "[]"
        and p = "''downloads/clip_1700000000.webm''" and y = ?y]
    by simp
  have derived: "resolve_filename y ?info = Inr ''downloads/clip_1700000000.mp4''"
    if "prepare_filename y = (\<lambda>i. Inr ''downloads/clip_1700000000.mkv'')" for y
    using that resolve_filename_cases
      [where info = ?info and y = y and filename = "''downloads/clip_1700000000.mkv''"]
    by (simp add: splitext_mkv)
  have missing: "download_video_try ''https://example.org/v'' ''720p'' 1700000000 ?Y
        (\<lambda>f. False) (\<lambda>f. Inr (Attachment f))
     = Inr (Json [''error'' \<mapsto> PyStr ''File not found after download''], 500)"
    using resolve_filename_cases
      [where info = ?info and YoutubeDL = ?Y and now = 1700000000 and quality = "''720p''"
        and url = "''https://example.org/v''" and resolved = "''downloads/clip_1700000000.mp4''"
        and path_exists = "\<lambda>f. False" and send_file = "\<lambda>f. Inr (Attachment f)"]
    by (simp add: derived)
  have sent: "download_video_try ''https://example.org/v'' ''720p'' 1700000000 ?Y
        (\<lambda>f. f = ''downloads/clip_1700000000.mp4'') (\<lambda>f. Inr (Attachment f))
     = Inr (Attachment ''downloads/clip_1700000000.mp4'', 200)"
    using resolve_filename_cases
      [where info = ?info and YoutubeDL = ?Y and now = 1700000000 and quality = "''720p''"
        and url = "''https://example.org/v''" and resolved = "''downloads/clip_1700000000.mp4''"
        and path_exists = "\<lambda>f. f = ''downloads/clip_1700000000.mp4''"
        and send_file = "\<lambda>f. Inr (Attachment f)"
        and sent = "Attachment ''downloads/clip_1700000000.mp4''"]
    by (simp add: derived)
  from listed derived [of ?y] missing sent show ?thesis by simp
qed

section \<open>The handlers' answers\<close>





text \<open>
  Claim C4. For a request to \<^verbatim>\<open>/api/info\<close> with a non-empty \<open>url\<close>, when the extractor
  raises, with whatever exception \<open>e\<close>, the answer is the status 400 with the fixed body
  \<open>{"error": "Could not fetch video info. Please check the URL."}\<close>: the answer does
  not depend on \<open>e\<close>.
\<close>

theorem info_extractor_failure:
  assumes "truthy (dict_get data ''url'' PyNone)"
    and "extract_info (YoutubeDL [''quiet'' \<mapsto> PyBool True, ''no_warnings'' \<mapsto> PyBool True])
           (dict_get data ''url'' PyNone) False = Inl e"
  shows "get_video_info (Inr (JObject data)) YoutubeDL
     = Inr (Json [''error'' \<mapsto> PyStr ''Could not fetch video info. Please check the URL.''], 400)"
  using assms
  by (simp add: get_video_info_def get_video_info_try_def get_ydl_opts_info ERR_FETCH_INFO_def
      HTTP_BAD_REQUEST_def)

theorem info_extractor_failure_witness:
  "truthy (dict_get [''url'' \<mapsto> PyStr ''https://example.org/v''] ''url'' PyNone)
   \<and> get_video_info (Inr (JObject [''url'' \<mapsto> PyStr ''https://example.org/v'']))
        (\<lambda>opts. \<lparr>extract_info = (\<lambda>u d. Inl (Raised ''ERROR: Unsupported URL'')),
                 prepare_filename = (\<lambda>i. Inr ''x.mp4'')\<rparr>)
     = Inr (Json [''error'' \<mapsto> PyStr ''Could not fetch video info. Please check the URL.''], 400)"
proof -
  let ?data = "[''url'' \<mapsto> PyStr ''https://example.org/v'']"
  let ?Y = "\<lambda>opts :: ydl_opts.
      \<lparr>extract_info = (\<lambda>u d. Inl (Raised ''ERROR: Unsupported URL'')),
       prepare_filename = (\<lambda>i. Inr ''x.mp4'')\<rparr>"
  from info_extractor_failure
    [where data = ?data and YoutubeDL = ?Y and e = "Raised ''ERROR: Unsupported URL''"]
  show ?thesis by (simp add: dict_get_def)
qed

text \<open>
  Claim C5. For a request to \<^verbatim>\<open>/api/download\<close> with a non-empty \<open>url\<close>, when the
  extractor raises an exception \<open>e\<close>, the answer is the status 500 with the body
  \<open>{"error": str(e)}\<close>: the message of the exception reaches the client.
\<close>

theorem download_extractor_failure:
  assumes "args ''url'' = Some url" and "url \<noteq> []"
    and "extract_info
           (YoutubeDL (projr (download_opts now (dict_get args ''quality'' ''1080p''))))
           (PyStr url) True = Inl e"
  shows "download_video args now YoutubeDL path_exists send_file
     = (Json [''error'' \<mapsto> PyStr (exc_str e)], 500)"
proof -
  obtain opts where opts: "download_opts now (dict_get args ''quality'' ''1080p'') = Inr opts"
    using download_opts_returns [of now "dict_get args ''quality'' ''1080p''"]
    by (cases "download_opts now (dict_get args ''quality'' ''1080p'')") auto
  with assms(3) have "download_video_try url (dict_get args ''quality'' ''1080p'') now YoutubeDL
      path_exists send_file = Inl e"
    by (simp add: download_video_try_def)
  with assms(1,2) show ?thesis
    by (simp add: download_video_def DEFAULT_QUALITY_def HTTP_INTERNAL_SERVER_ERROR_def)
qed

theorem download_extractor_failure_witness:
  "[''url'' \<mapsto> ''https://example.org/v''] ''url'' = Some ''https://example.org/v''
   \<and> ''https://example.org/v'' \<noteq> []
   \<and> download_video [''url'' \<mapsto> ''https://example.org/v''] 1700000000
        (\<lambda>opts. \<lparr>extract_info = (\<lambda>u d. Inl (Raised ''ERROR: Unsupported URL'')),
                 prepare_filename = (\<lambda>i. Inr ''x.mp4'')\<rparr>)
        (\<lambda>f. True) (\<lambda>f. Inr (Attachment f))
     = (Json [''error'' \<mapsto> PyStr ''ERROR: Unsupported URL''], 500)"
proof -
  let ?args = "[''url'' \<mapsto> ''https://example.org/v'']"
  let ?Y = "\<lambda>opts :: ydl_opts.
      \<lparr>extract_info = (\<lambda>u d. Inl (Raised ''ERROR: Unsupported URL'')),
       prepare_filename = (\<lambda>i. Inr ''x.mp4'')\<rparr>"
  from download_extractor_failure
    [where args = ?args and url = "''https://example.org/v''" and YoutubeDL = ?Y
      and now = 1700000000 and e = "Raised ''ERROR: Unsupported URL''"
      and path_exists = "\<lambda>f. True" and send_file = "\<lambda>f. Inr (Attachment f)"]
  show ?thesis by simp
qed

text \<open>
  Claim C10. On a value that is not a number, \<open>format_duration\<close> returns its \<^verbatim>\<open>str\<close>;
  on \<^verbatim>\<open>None\<close> that is the text \<open>None\<close>. So when the extractor's result has no
  \<open>duration\<close>, the info handler still answers 200, and the \<open>duration\<close> of the answer is
  the text \<open>None\<close>; no default takes its place.
\<close>

theorem missing_duration:
  "(\<not> isinstance_int_float x \<longrightarrow> format_duration x = Inr (py_str x))
   \<and> format_duration PyNone = Inr ''None''
   \<and> (truthy (dict_get data ''url'' PyNone)
        \<and> extract_info (YoutubeDL [''quiet'' \<mapsto> PyBool True, ''no_warnings'' \<mapsto> PyBool True])
             (dict_get data ''url'' PyNone) False = Inr info
        \<and> meta info ''duration'' = None
      \<longrightarrow> get_video_info (Inr (JObject data)) YoutubeDL =
           Inr (Json [''title'' \<mapsto> dict_get (meta info) ''title'' (PyStr ''Unknown Title''),
                  ''thumbnail'' \<mapsto> dict_get (meta info) ''thumbnail'' (PyStr []),
                  ''duration'' \<mapsto> PyStr ''None'',
                  ''author'' \<mapsto> dict_get (meta info) ''uploader'' (PyStr ''Unknown Author''),
                  ''webpage_url'' \<mapsto> dict_get (meta info) ''webpage_url''
                     (dict_get data ''url'' PyNone)],
            200))"
proof (intro conjI impI)
  assume "\<not> isinstance_int_float x"
  then show "format_duration x = Inr (py_str x)"
    by (simp add: format_duration_def)
next
  show none: "format_duration PyNone = Inr ''None''"
    by (simp add: format_duration_def)
  assume a: "truthy (dict_get data ''url'' PyNone)
        \<and> extract_info (YoutubeDL [''quiet'' \<mapsto> PyBool True, ''no_warnings'' \<mapsto> PyBool True])
             (dict_get data ''url'' PyNone) False = Inr info
        \<and> meta info ''duration'' = None"
  then have "dict_get (meta info) ''duration'' PyNone = PyNone"
    by (simp add: dict_get_def)
  with a none show "get_video_info (Inr (JObject data)) YoutubeDL =
           Inr (Json [''title'' \<mapsto> dict_get (meta info) ''title'' (PyStr ''Unknown Title''),
                  ''thumbnail'' \<mapsto> dict_get (meta info) ''thumbnail'' (PyStr []),
                  ''duration'' \<mapsto> PyStr ''None'',
                  ''author'' \<mapsto> dict_get (meta info) ''uploader'' (PyStr ''Unknown Author''),
                  ''webpage_url'' \<mapsto> dict_get (meta info) ''webpage_url''
                     (dict_get data ''url'' PyNone)],
            200)"
    by (simp add: get_video_info_def get_video_info_try_def get_ydl_opts_info HTTP_OK_def)
qed

theorem missing_duration_witness:
  "\<not> isinstance_int_float (PyStr ''3:05'') \<and> format_duration (PyStr ''3:05'') = Inr ''3:05''
   \<and> get_video_info (Inr (JObject [''url'' \<mapsto> PyStr ''https://example.org/v'']))
        (\<lambda>opts. \<lparr>extract_info =
                   (\<lambda>u d. Inr \<lparr>meta = [''title'' \<mapsto> PyStr ''Clip''], requested_downloads = None\<rparr>),
                 prepare_filename = (\<lambda>i. Inr ''x.mp4'')\<rparr>)
     = Inr (Json [''title'' \<mapsto> PyStr ''Clip'',
              ''thumbnail'' \<mapsto> PyStr [],
              ''duration'' \<mapsto> PyStr ''None'',
              ''author'' \<mapsto> PyStr ''Unknown Author'',
              ''webpage_url'' \<mapsto> PyStr ''https://example.org/v''],
        200)"
proof -
  let ?data = "[''url'' \<mapsto> PyStr ''https://example.org/v'']"
  let ?info = "\<lparr>meta = [''title'' \<mapsto> PyStr ''Clip''], requested_downloads = None\<rparr>"
  let ?Y = "\<lambda>opts :: ydl_opts.
      \<lparr>extract_info = (\<lambda>u d. Inr ?info), prepare_filename = (\<lambda>i. Inr ''x.mp4'')\<rparr>"
  from missing_duration
    [where x = "PyStr ''3:05''" and data = ?data and YoutubeDL = ?Y and info = ?info]
  show ?thesis by (simp add: dict_get_def)
qed

end
